theory Spec2Isabelle
  imports Main "HOL-Library.Sublist"
begin

section \<open>The values exchanged with the LlamaStack service\<close>

text \<open>
  The program (\<^verbatim>\<open>main.go\<close>) is a linear pipeline of six calls into the client
  library \<^verbatim>\<open>llama-stack-client-go\<close>. The library's request and response structs are
  modelled as records carrying the fields that \<^verbatim>\<open>runRAGDemo\<close> writes or reads. A Go
  \<^verbatim>\<open>string\<close> is a byte sequence, here a \<^typ>\<open>string\<close>. A Go \<^verbatim>\<open>error\<close> is
  represented by the text that the verb \<^verbatim>\<open>%v\<close> prints for it; a call returning
  \<^verbatim>\<open>(result, err)\<close> is a sum, \<open>Inl\<close> the error (\<^verbatim>\<open>err != nil\<close>) and \<open>Inr\<close> the
  result: with a \<^verbatim>\<open>nil\<close> error the library returns a result, so the field reads that
  follow each check do not fail.

  The function \<^verbatim>\<open>main\<close> (lines 12 to 27) builds the client, prints a banner, calls
  \<^verbatim>\<open>runRAGDemo\<close> once and prints the returned error or a closing line. The model starts
  at \<^verbatim>\<open>runRAGDemo\<close>, with the client given.
\<close>

type_synonym go_error = string

record VectorStore =
  VectorStore_ID :: string
  VectorStore_Name :: string

record File =
  File_ID :: string
  File_Filename :: string

text \<open>
  A search hit. The declared types of \<^verbatim>\<open>Content\<close> and \<^verbatim>\<open>Score\<close> belong to the
  library; the pipeline only prints them, with the verbs \<^verbatim>\<open>%s\<close> and \<^verbatim>\<open>%.4f\<close>. They
  are kept abstract (type variables \<open>'c\<close> and \<open>'f\<close>), and the two verbs are the
  parameters \<open>fmt_s\<close> and \<open>fmt_4f\<close> of the pipeline.
\<close>

record ('c, 'f) SearchData =
  Content :: 'c
  Score :: 'f

record ('c, 'f) VectorStoreSearchResponse =
  Data :: "('c, 'f) SearchData list"

record Model =
  ModelType :: string
  Identifier :: string

text \<open>
  Of a chat completion the pipeline reads \<^verbatim>\<open>response.AsOpenAIChatCompletion().Choices\<close>
  (a slice, \<open>None\<close> when it is \<^verbatim>\<open>nil\<close>) and the message of a choice. The message
  is a union over the roles: it carries the role tag of the message received and its
  content, \<open>Some\<close> text when the content is a string and \<open>None\<close> when the content is
  absent or is not a string.
\<close>

record ChoiceMessage =
  Role :: string
  Content_string :: "string option"

record Choice =
  Message :: ChoiceMessage

text \<open>
  The chain \<^verbatim>\<open>message.AsAssistant().Content.OfString\<close> of lines 170 and 171. The
  accessor belongs to the client library. It decodes the message as the assistant
  variant and does not test the role tag: the result is the string content of the
  message, whatever its role, and the Go zero value \<^verbatim>\<open>""\<close> when there is none.
\<close>

definition AsAssistant_Content_OfString :: "ChoiceMessage \<Rightarrow> string" where
  "AsAssistant_Content_OfString message =
     (case Content_string message of None \<Rightarrow> [] | Some a \<Rightarrow> a)"

record ChatCompletion =
  Choices :: "Choice list option"

subsection \<open>Request parameters\<close>

record VectorStoreNewParams =
  Name :: string

datatype FileNewParamsPurpose = FileNewParamsPurposeAssistants

record NewFile =
  reader :: string
  filename :: string
  contentType :: string

record FileNewParams =
  File :: NewFile
  Purpose :: FileNewParamsPurpose

record VectorStoreFileNewParams =
  FileID :: string

record VectorStoreSearchParams =
  Query_OfString :: string
  MaxNumResults :: "int option"

datatype ChatCompletionNewParamsMessage = OfSystem string | OfUser string

record ChatCompletionNewParams =
  Messages :: "ChatCompletionNewParamsMessage list"
  Model :: string
  MaxTokens :: "int option"

subsection \<open>The service and the record of a run\<close>

text \<open>
  The client is the boundary to the remote service. Each of its six methods takes the
  request and the service's state \<open>'s\<close> and returns the response and the next state, so a
  response may depend on everything the service has seen before. The context argument
  \<^verbatim>\<open>ctx\<close> is \<^verbatim>\<open>context.Background()\<close> in every call and is left out. The result of the
  attach call is discarded by the pipeline (\<^verbatim>\<open>_\<close> in line 76) and is \<^typ>\<open>unit\<close> here.
\<close>

record ('s, 'c, 'f) Client =
  VectorStores_New :: "VectorStoreNewParams \<Rightarrow> 's \<Rightarrow> (go_error + VectorStore) \<times> 's"
  Files_New :: "FileNewParams \<Rightarrow> 's \<Rightarrow> (go_error + File) \<times> 's"
  VectorStores_Files_New ::
    "string \<Rightarrow> VectorStoreFileNewParams \<Rightarrow> 's \<Rightarrow> (go_error + unit) \<times> 's"
  VectorStores_Search ::
    "string \<Rightarrow> VectorStoreSearchParams \<Rightarrow> 's
      \<Rightarrow> (go_error + ('c, 'f) VectorStoreSearchResponse) \<times> 's"
  Models_List :: "'s \<Rightarrow> (go_error + Model list) \<times> 's"
  Chat_Completions_New :: "ChatCompletionNewParams \<Rightarrow> 's \<Rightarrow> (go_error + ChatCompletion) \<times> 's"

datatype request =
    VectorStores_New_req VectorStoreNewParams
  | Files_New_req FileNewParams
  | VectorStores_Files_New_req string VectorStoreFileNewParams
  | VectorStores_Search_req string VectorStoreSearchParams
  | Models_List_req
  | Chat_Completions_New_req ChatCompletionNewParams

datatype ('c, 'f) response =
    VectorStores_New_resp "go_error + VectorStore"
  | Files_New_resp "go_error + File"
  | VectorStores_Files_New_resp "go_error + unit"
  | VectorStores_Search_resp "go_error + ('c, 'f) VectorStoreSearchResponse"
  | Models_List_resp "go_error + Model list"
  | Chat_Completions_New_resp "go_error + ChatCompletion"

text \<open>
  What a run touches: the service's state, the standard output (one entry for each
  \<^verbatim>\<open>fmt.Println\<close> or \<^verbatim>\<open>fmt.Printf\<close> executed, in order; the console shows their
  concatenation) and the log of the calls made to the service, each with its response.
  The log is not in the Go program: it is what a recording mock of the service sees.
\<close>

record ('s, 'c, 'f) world =
  svc :: 's
  stdout :: "string list"
  trace :: "(request \<times> ('c, 'f) response) list"

definition init_world :: "'s \<Rightarrow> ('s, 'c, 'f) world" where
  "init_world s = \<lparr>svc = s, stdout = [], trace = []\<rparr>"

definition console :: "('s, 'c, 'f) world \<Rightarrow> string" where
  "console w = concat (stdout w)"

definition Println :: "string \<Rightarrow> ('s, 'c, 'f) world \<Rightarrow> ('s, 'c, 'f) world" where
  "Println a w = w\<lparr>stdout := stdout w @ [a @ ''\<newline>'']\<rparr>"

definition Printf :: "string \<Rightarrow> ('s, 'c, 'f) world \<Rightarrow> ('s, 'c, 'f) world" where
  "Printf a w = w\<lparr>stdout := stdout w @ [a]\<rparr>"

definition call ::
  "request \<Rightarrow> ('r \<Rightarrow> ('c, 'f) response) \<Rightarrow> ('s \<Rightarrow> 'r \<times> 's) \<Rightarrow> ('s, 'c, 'f) world
    \<Rightarrow> 'r \<times> ('s, 'c, 'f) world" where
  "call req resp method w =
     (case method (svc w) of
        (r, s') \<Rightarrow> (r, w\<lparr>svc := s', trace := trace w @ [(req, resp r)]\<rparr>))"

section \<open>Formatting\<close>

text \<open>The verb \<^verbatim>\<open>%d\<close> on a non-negative \<^verbatim>\<open>int\<close>: decimal digits, no padding.\<close>

fun Sprintf_d :: "nat \<Rightarrow> string" where
  "Sprintf_d n =
     (if n < 10 then [''0123456789'' ! n]
      else Sprintf_d (n div 10) @ [''0123456789'' ! (n mod 10)])"

declare Sprintf_d.simps [simp del]

section \<open>The pipeline\<close>

definition sampleContent :: string where
  "sampleContent =
     ''Artificial Intelligence (AI) is a branch of computer science that aims to create intelligent machines that work and react like humans. \<newline>'' @
     [CHR 0x09] @ ''\<newline>'' @
     ''Machine Learning is a subset of AI that enables computers to learn and improve from experience without being explicitly programmed. \<newline>'' @
     [CHR 0x09] @ ''\<newline>'' @
     ''Deep Learning is a subset of machine learning that uses neural networks with multiple layers to model and understand complex patterns in data.\<newline>'' @
     ''\<newline>'' @
     ''Natural Language Processing (NLP) is a field of AI that focuses on the interaction between computers and human language, enabling machines to understand, interpret, and generate human language.\<newline>'' @
     ''\<newline>'' @
     ''Computer Vision is another AI field that enables computers to interpret and understand visual information from the world, such as images and videos.\<newline>'' @
     ''\<newline>'' @
     ''These technologies are transforming industries like healthcare, finance, transportation, and entertainment by automating tasks, improving decision-making, and creating new capabilities.''"

definition query :: string where
  "query = ''What is machine learning and how does it relate to AI?''"

definition systemPrompt :: string where
  "systemPrompt =
     ''You are a helpful AI assistant. Use the provided context to answer questions accurately and concisely.''"

text \<open>
  Lines 106 to 110: the loop printing the chunks; \<open>i\<close> is the index of the head of the
  remaining slice.
\<close>

fun print_chunks ::
  "('c \<Rightarrow> string) \<Rightarrow> ('f \<Rightarrow> string) \<Rightarrow> nat \<Rightarrow> ('c, 'f) SearchData list
    \<Rightarrow> ('s, 'c, 'f) world \<Rightarrow> ('s, 'c, 'f) world" where
  "print_chunks fmt_s fmt_4f i [] w = w"
| "print_chunks fmt_s fmt_4f i (result # rest) w =
     print_chunks fmt_s fmt_4f (i + 1) rest
       (Printf (''Score: '' @ fmt_4f (Score result) @ ''\<newline>'')
         (Printf (''Content: '' @ fmt_s (Content result) @ ''\<newline>'')
           (Printf (''\<newline>--- Chunk '' @ Sprintf_d (i + 1) @ '' ---\<newline>'') w)))"

text \<open>
  Lines 116 to 121: the \<^verbatim>\<open>strings.Builder\<close> is the accumulated string; the loop appends
  one numbered line for each search hit.
\<close>

fun write_chunks ::
  "('c \<Rightarrow> string) \<Rightarrow> nat \<Rightarrow> ('c, 'f) SearchData list \<Rightarrow> string \<Rightarrow> string" where
  "write_chunks fmt_s i [] contextBuilder = contextBuilder"
| "write_chunks fmt_s i (result # rest) contextBuilder =
     write_chunks fmt_s (i + 1) rest
       (contextBuilder @ Sprintf_d (i + 1) @ ''. '' @ fmt_s (Content result) @ ''\<newline>'')"

definition build_context :: "('c \<Rightarrow> string) \<Rightarrow> ('c, 'f) SearchData list \<Rightarrow> string" where
  "build_context fmt_s results =
     write_chunks fmt_s 0 results ''Based on the following information:\<newline>\<newline>''
       @ ''\<newline>Please answer the question: '' @ query"

text \<open>
  Lines 129 to 135: \<^verbatim>\<open>llmModel\<close> starts as the empty string and the loop leaves at the
  first model whose type is \<^verbatim>\<open>"llm"\<close>.
\<close>

fun select_llm :: "Model list \<Rightarrow> string" where
  "select_llm [] = []"
| "select_llm (model # rest) =
     (if ModelType model = ''llm'' then Identifier model else select_llm rest)"

text \<open>Lines 168 to 175: printing the answer.\<close>

definition display_answer :: "ChatCompletion \<Rightarrow> ('s, 'c, 'f) world \<Rightarrow> ('s, 'c, 'f) world" where
  "display_answer openAIResponse w =
     (case Choices openAIResponse of
        None \<Rightarrow> w
      | Some [] \<Rightarrow> w
      | Some (choice # _) \<Rightarrow>
          if AsAssistant_Content_OfString (Message choice) \<noteq> []
          then Printf (''\<newline>Enhanced Answer:\<newline>''
                 @ AsAssistant_Content_OfString (Message choice) @ ''\<newline>'') w
          else w)"

text \<open>
  \<^verbatim>\<open>runRAGDemo\<close>, lines 30 to 178. The result is the returned \<^verbatim>\<open>error\<close> (\<open>None\<close> for
  \<^verbatim>\<open>nil\<close>) and the world after the run.
\<close>

definition runRAGDemo ::
  "('c \<Rightarrow> string) \<Rightarrow> ('f \<Rightarrow> string) \<Rightarrow> ('s, 'c, 'f) Client \<Rightarrow> ('s, 'c, 'f) world
    \<Rightarrow> go_error option \<times> ('s, 'c, 'f) world" where
  "runRAGDemo fmt_s fmt_4f client w0 =
    (let w1 = Println ''=== Step 1: Creating Vector Store ==='' w0;
         p1 = \<lparr>Name = ''my-rag-store''\<rparr>
     in case call (VectorStores_New_req p1) VectorStores_New_resp (VectorStores_New client p1) w1 of
       (Inl err, w) \<Rightarrow> (Some (''error creating vector store: '' @ err), w)
     | (Inr vectorStore, w) \<Rightarrow>
    (let w2 = Println ''\<newline>=== Step 2: Uploading Sample File ===''
               (Printf (''Created vector store: '' @ VectorStore_Name vectorStore
                  @ '' (ID: '' @ VectorStore_ID vectorStore @ '')\<newline>'') w);
         p2 = \<lparr>File = \<lparr>reader = sampleContent, filename = ''ai_concepts.txt'',
                          contentType = ''text/plain''\<rparr>,
               Purpose = FileNewParamsPurposeAssistants\<rparr>
     in case call (Files_New_req p2) Files_New_resp (Files_New client p2) w2 of
       (Inl err, w) \<Rightarrow> (Some (''error uploading file: '' @ err), w)
     | (Inr file, w) \<Rightarrow>
    (let w3 = Println ''\<newline>=== Step 3: Attaching File to Vector Store ===''
               (Printf (''Uploaded file: '' @ File_Filename file
                  @ '' (ID: '' @ File_ID file @ '')\<newline>'') w);
         p3 = \<lparr>FileID = File_ID file\<rparr>
     in case call (VectorStores_Files_New_req (VectorStore_ID vectorStore) p3)
               VectorStores_Files_New_resp
               (VectorStores_Files_New client (VectorStore_ID vectorStore) p3) w3 of
       (Inl err, w) \<Rightarrow> (Some (''error attaching file to vector store: '' @ err), w)
     | (Inr _, w) \<Rightarrow>
    (let w4 = Printf (''Query: '' @ query @ ''\<newline>'')
               (Println ''\<newline>=== Step 4: Running RAG Query ===''
                 (Println ''Waiting for file processing to complete...''
                   (Printf ''File attached to vector store successfully\<newline>'' w)));
         p4 = \<lparr>Query_OfString = query, MaxNumResults = Some 3\<rparr>
     in case call (VectorStores_Search_req (VectorStore_ID vectorStore) p4)
               VectorStores_Search_resp
               (VectorStores_Search client (VectorStore_ID vectorStore) p4) w4 of
       (Inl err, w) \<Rightarrow> (Some (''error searching vector store: '' @ err), w)
     | (Inr searchResults, w) \<Rightarrow>
    (let w5 = Println ''\<newline>=== Step 5: Generating Enhanced Answer ===''
               (print_chunks fmt_s fmt_4f 0 (Data searchResults)
                 (Printf (''\<newline>Found '' @ Sprintf_d (length (Data searchResults))
                    @ '' relevant chunks:\<newline>'') w));
         contextBuilder = build_context fmt_s (Data searchResults)
     in case call Models_List_req Models_List_resp (Models_List client) w5 of
       (Inl err, w) \<Rightarrow> (Some (''error fetching models: '' @ err), w)
     | (Inr models, w) \<Rightarrow>
    (let llmModel = select_llm models
     in if llmModel = [] then (Some ''no LLM model available for generation'', w)
        else
    (let p6 = \<lparr>Messages = [OfSystem systemPrompt, OfUser contextBuilder],
               Model = llmModel, MaxTokens = Some 300\<rparr>
     in case call (Chat_Completions_New_req p6) Chat_Completions_New_resp
               (Chat_Completions_New client p6) w of
       (Inl err, w) \<Rightarrow> (Some (''error generating answer: '' @ err), w)
     | (Inr response, w) \<Rightarrow> (None, display_answer response w))))))))"


section \<open>Auxiliary definitions\<close>

subsection \<open>What a run prints and requests, stage by stage\<close>

text \<open>
  The entries that the loop of lines 106 to 110 appends to the standard output, and the
  standard output at each of the points where \<^verbatim>\<open>runRAGDemo\<close> can return. They are used
  to describe the outcome of a run; \<open>runRAGDemo_outcome\<close> below proves that
  they are what \<^const>\<open>runRAGDemo\<close> produces.
\<close>

fun chunk_items :: "('c \<Rightarrow> string) \<Rightarrow> ('f \<Rightarrow> string) \<Rightarrow> nat \<Rightarrow> ('c, 'f) SearchData list \<Rightarrow> string list" where
  "chunk_items fs ff i [] = []"
| "chunk_items fs ff i (r # rs) =
     [''\<newline>--- Chunk '' @ Sprintf_d (i + 1) @ '' ---\<newline>'',
      ''Content: '' @ fs (Content r) @ ''\<newline>'',
      ''Score: '' @ ff (Score r) @ ''\<newline>''] @ chunk_items fs ff (i + 1) rs"

definition out1 :: "string list" where
  "out1 = [''=== Step 1: Creating Vector Store ===\<newline>'']"

definition out2 :: "VectorStore \<Rightarrow> string list" where
  "out2 vs = out1 @
     [''Created vector store: '' @ VectorStore_Name vs @ '' (ID: '' @ VectorStore_ID vs @ '')\<newline>'',
      ''\<newline>=== Step 2: Uploading Sample File ===\<newline>'']"

definition out3 :: "VectorStore \<Rightarrow> File \<Rightarrow> string list" where
  "out3 vs f = out2 vs @
     [''Uploaded file: '' @ File_Filename f @ '' (ID: '' @ File_ID f @ '')\<newline>'',
      ''\<newline>=== Step 3: Attaching File to Vector Store ===\<newline>'']"

definition out4 :: "VectorStore \<Rightarrow> File \<Rightarrow> string list" where
  "out4 vs f = out3 vs f @
     [''File attached to vector store successfully\<newline>'',
      ''Waiting for file processing to complete...\<newline>'',
      ''\<newline>=== Step 4: Running RAG Query ===\<newline>'',
      ''Query: '' @ query @ ''\<newline>'']"

definition out5 ::
  "('c \<Rightarrow> string) \<Rightarrow> ('f \<Rightarrow> string) \<Rightarrow> VectorStore \<Rightarrow> File
    \<Rightarrow> ('c, 'f) VectorStoreSearchResponse \<Rightarrow> string list" where
  "out5 fs ff vs f sr = out4 vs f @
     [''\<newline>Found '' @ Sprintf_d (length (Data sr)) @ '' relevant chunks:\<newline>'']
     @ chunk_items fs ff 0 (Data sr)
     @ [''\<newline>=== Step 5: Generating Enhanced Answer ===\<newline>'']"

definition answer_items :: "ChatCompletion \<Rightarrow> string list" where
  "answer_items cr =
     (case Choices cr of
        Some (choice # _) \<Rightarrow>
          if AsAssistant_Content_OfString (Message choice) \<noteq> []
          then [''\<newline>Enhanced Answer:\<newline>''
                  @ AsAssistant_Content_OfString (Message choice) @ ''\<newline>'']
          else []
      | _ \<Rightarrow> [])"

definition req1 :: request where
  "req1 = VectorStores_New_req \<lparr>Name = ''my-rag-store''\<rparr>"

definition req2 :: request where
  "req2 = Files_New_req
     \<lparr>File = \<lparr>reader = sampleContent, filename = ''ai_concepts.txt'',
               contentType = ''text/plain''\<rparr>,
      Purpose = FileNewParamsPurposeAssistants\<rparr>"

definition req3 :: "VectorStore \<Rightarrow> File \<Rightarrow> request" where
  "req3 vs f = VectorStores_Files_New_req (VectorStore_ID vs) \<lparr>FileID = File_ID f\<rparr>"

definition req4 :: "VectorStore \<Rightarrow> request" where
  "req4 vs = VectorStores_Search_req (VectorStore_ID vs)
     \<lparr>Query_OfString = query, MaxNumResults = Some 3\<rparr>"

definition req6 :: "('c \<Rightarrow> string) \<Rightarrow> ('c, 'f) VectorStoreSearchResponse \<Rightarrow> Model list \<Rightarrow> request" where
  "req6 fs sr ms = Chat_Completions_New_req
     \<lparr>Messages = [OfSystem systemPrompt, OfUser (build_context fs (Data sr))],
      Model = select_llm ms, MaxTokens = Some 300\<rparr>"


subsection \<open>Vocabulary of the properties\<close>

text \<open>Whether a logged response is a success, and the error of one that is not.\<close>

fun failure :: "('c, 'f) response \<Rightarrow> go_error option" where
  "failure (VectorStores_New_resp r) = (case r of Inl e \<Rightarrow> Some e | Inr _ \<Rightarrow> None)"
| "failure (Files_New_resp r) = (case r of Inl e \<Rightarrow> Some e | Inr _ \<Rightarrow> None)"
| "failure (VectorStores_Files_New_resp r) = (case r of Inl e \<Rightarrow> Some e | Inr _ \<Rightarrow> None)"
| "failure (VectorStores_Search_resp r) = (case r of Inl e \<Rightarrow> Some e | Inr _ \<Rightarrow> None)"
| "failure (Models_List_resp r) = (case r of Inl e \<Rightarrow> Some e | Inr _ \<Rightarrow> None)"
| "failure (Chat_Completions_New_resp r) = (case r of Inl e \<Rightarrow> Some e | Inr _ \<Rightarrow> None)"

definition succeeded :: "('c, 'f) response \<Rightarrow> bool" where
  "succeeded r = (failure r = None)"

text \<open>
  The number of the pipeline step that a call belongs to, in the order store-create,
  file-upload, attach, search, list-models, chat-completion.
\<close>

fun call_number :: "request \<Rightarrow> nat" where
  "call_number (VectorStores_New_req _) = 1"
| "call_number (Files_New_req _) = 2"
| "call_number (VectorStores_Files_New_req _ _) = 3"
| "call_number (VectorStores_Search_req _ _) = 4"
| "call_number Models_List_req = 5"
| "call_number (Chat_Completions_New_req _) = 6"

definition is_llm :: "Model \<Rightarrow> bool" where
  "is_llm model = (ModelType model = ''llm'')"

subsection \<open>Mock services\<close>

text \<open>
  A service that replays a script: its state is the list of responses still to give.
  A call that does not find its own kind of response at the head of the script gets an
  error and leaves the script as it is.
\<close>

definition scripted :: "(('c, 'f) response list, 'c, 'f) Client" where
  "scripted =
     \<lparr>VectorStores_New = (\<lambda>_ s. case s of VectorStores_New_resp r # rest \<Rightarrow> (r, rest)
          | _ \<Rightarrow> (Inl ''unexpected call'', s)),
      Files_New = (\<lambda>_ s. case s of Files_New_resp r # rest \<Rightarrow> (r, rest)
          | _ \<Rightarrow> (Inl ''unexpected call'', s)),
      VectorStores_Files_New = (\<lambda>_ _ s. case s of VectorStores_Files_New_resp r # rest \<Rightarrow> (r, rest)
          | _ \<Rightarrow> (Inl ''unexpected call'', s)),
      VectorStores_Search = (\<lambda>_ _ s. case s of VectorStores_Search_resp r # rest \<Rightarrow> (r, rest)
          | _ \<Rightarrow> (Inl ''unexpected call'', s)),
      Models_List = (\<lambda>s. case s of Models_List_resp r # rest \<Rightarrow> (r, rest)
          | _ \<Rightarrow> (Inl ''unexpected call'', s)),
      Chat_Completions_New = (\<lambda>_ s. case s of Chat_Completions_New_resp r # rest \<Rightarrow> (r, rest)
          | _ \<Rightarrow> (Inl ''unexpected call'', s))\<rparr>"

text \<open>A service without state in which every call succeeds, with fixed results.\<close>

definition always_ok ::
  "VectorStore \<Rightarrow> File \<Rightarrow> ('c, 'f) VectorStoreSearchResponse \<Rightarrow> Model list \<Rightarrow> ChatCompletion
    \<Rightarrow> (unit, 'c, 'f) Client" where
  "always_ok vs f sr ms cr =
     \<lparr>VectorStores_New = (\<lambda>_ s. (Inr vs, s)),
      Files_New = (\<lambda>_ s. (Inr f, s)),
      VectorStores_Files_New = (\<lambda>_ _ s. (Inr (), s)),
      VectorStores_Search = (\<lambda>_ _ s. (Inr sr, s)),
      Models_List = (\<lambda>s. (Inr ms, s)),
      Chat_Completions_New = (\<lambda>_ s. (Inr cr, s))\<rparr>"

definition store0 :: VectorStore where
  "store0 = \<lparr>VectorStore_ID = ''vs_1'', VectorStore_Name = ''my-rag-store''\<rparr>"

definition file0 :: File where
  "file0 = \<lparr>File_ID = ''file_7'', File_Filename = ''ai_concepts.txt''\<rparr>"

definition hits0 :: "(string, nat) VectorStoreSearchResponse" where
  "hits0 = \<lparr>Data = [\<lparr>Content = ''Machine Learning is a subset of AI'', Score = 1\<rparr>,
                     \<lparr>Content = ''Deep Learning'', Score = 0\<rparr>]\<rparr>"

definition embedding0 :: Model where
  "embedding0 = \<lparr>ModelType = ''embedding'', Identifier = ''nomic-embed-text''\<rparr>"

definition llm0 :: Model where
  "llm0 = \<lparr>ModelType = ''llm'', Identifier = ''llama3.2:3b''\<rparr>"

definition unnamed_llm0 :: Model where
  "unnamed_llm0 = \<lparr>ModelType = ''llm'', Identifier = []\<rparr>"

definition answer0 :: ChatCompletion where
  "answer0 =
     \<lparr>Choices = Some [\<lparr>Message =
        \<lparr>Role = ''assistant'', Content_string = Some ''A subset of AI.''\<rparr>\<rparr>]\<rparr>"




subsection \<open>Sample runs\<close>

text \<open>
  Runs against the mock services: the responses are fixed, the hits are rendered as they
  are (\<open>id\<close> for \<^verbatim>\<open>%s\<close>) and the scores, natural numbers here, in decimal.
\<close>

definition run_with_llm :: "go_error option \<times> (unit, string, nat) world" where
  "run_with_llm =
     runRAGDemo id Sprintf_d (always_ok store0 file0 hits0 [embedding0, llm0] answer0)
       (init_world ())"

definition run_without_llm :: "go_error option \<times> (unit, string, nat) world" where
  "run_without_llm =
     runRAGDemo id Sprintf_d (always_ok store0 file0 hits0 [embedding0] answer0)
       (init_world ())"

definition run_unnamed_llm :: "go_error option \<times> (unit, string, nat) world" where
  "run_unnamed_llm =
     runRAGDemo id Sprintf_d
       (always_ok store0 file0 hits0 [embedding0, unnamed_llm0, llm0] answer0)
       (init_world ())"




definition script_attach_fails :: "(string, nat) response list" where
  "script_attach_fails =
     [VectorStores_New_resp (Inr store0), Files_New_resp (Inr file0),
      VectorStores_Files_New_resp (Inl ''connection refused'')]"

definition run_attach_fails ::
  "go_error option \<times> ((string, nat) response list, string, nat) world" where
  "run_attach_fails = runRAGDemo id Sprintf_d scripted (init_world script_attach_fails)"

definition script_with_llm :: "(string, nat) response list" where
  "script_with_llm =
     [VectorStores_New_resp (Inr store0), Files_New_resp (Inr file0),
      VectorStores_Files_New_resp (Inr ()), VectorStores_Search_resp (Inr hits0),
      Models_List_resp (Inr [embedding0, llm0]), Chat_Completions_New_resp (Inr answer0)]"

definition run_replayed ::
  "go_error option \<times> ((string, nat) response list, string, nat) world" where
  "run_replayed = runRAGDemo id Sprintf_d scripted (init_world script_with_llm)"

section \<open>The outcome of a run\<close>

lemma print_chunks_eq:
  "print_chunks fs ff i rs w = w\<lparr>stdout := stdout w @ chunk_items fs ff i rs\<rparr>"
  by (induction rs arbitrary: i w) (simp_all add: Printf_def)

lemma display_answer_eq:
  "display_answer cr w = w\<lparr>stdout := stdout w @ answer_items cr\<rparr>"
  by (simp add: display_answer_def answer_items_def Printf_def split: option.splits list.splits)

lemmas run_unfold = runRAGDemo_def Let_def call_def Println_def Printf_def init_world_def
    print_chunks_eq display_answer_eq
    out1_def out2_def out3_def out4_def out5_def req1_def req2_def req3_def req4_def req6_def

lemma select_llm_find:
  "select_llm ms = (case find is_llm ms of None \<Rightarrow> [] | Some m \<Rightarrow> Identifier m)"
  by (induction ms) (simp_all add: is_llm_def)

text \<open>
  A run from the initial world ends in one of eight ways: a failed call at one of the six
  steps, no usable model, or success. In each the log, the returned error and the standard
  output are determined by the responses received.
\<close>

lemma runRAGDemo_outcome:
  assumes run: "runRAGDemo fs ff c (init_world s) = (err, w)"
  shows
    "(\<exists>e. trace w = [(req1, VectorStores_New_resp (Inl e))]
        \<and> err = Some (''error creating vector store: '' @ e) \<and> stdout w = out1)
   \<or> (\<exists>vs e. trace w = [(req1, VectorStores_New_resp (Inr vs)), (req2, Files_New_resp (Inl e))]
        \<and> err = Some (''error uploading file: '' @ e) \<and> stdout w = out2 vs)
   \<or> (\<exists>vs f e. trace w = [(req1, VectorStores_New_resp (Inr vs)), (req2, Files_New_resp (Inr f)),
            (req3 vs f, VectorStores_Files_New_resp (Inl e))]
        \<and> err = Some (''error attaching file to vector store: '' @ e) \<and> stdout w = out3 vs f)
   \<or> (\<exists>vs f e. trace w = [(req1, VectorStores_New_resp (Inr vs)), (req2, Files_New_resp (Inr f)),
            (req3 vs f, VectorStores_Files_New_resp (Inr ())),
            (req4 vs, VectorStores_Search_resp (Inl e))]
        \<and> err = Some (''error searching vector store: '' @ e) \<and> stdout w = out4 vs f)
   \<or> (\<exists>vs f sr e. trace w = [(req1, VectorStores_New_resp (Inr vs)), (req2, Files_New_resp (Inr f)),
            (req3 vs f, VectorStores_Files_New_resp (Inr ())),
            (req4 vs, VectorStores_Search_resp (Inr sr)),
            (Models_List_req, Models_List_resp (Inl e))]
        \<and> err = Some (''error fetching models: '' @ e) \<and> stdout w = out5 fs ff vs f sr)
   \<or> (\<exists>vs f sr ms. trace w = [(req1, VectorStores_New_resp (Inr vs)), (req2, Files_New_resp (Inr f)),
            (req3 vs f, VectorStores_Files_New_resp (Inr ())),
            (req4 vs, VectorStores_Search_resp (Inr sr)),
            (Models_List_req, Models_List_resp (Inr ms))]
        \<and> select_llm ms = []
        \<and> err = Some ''no LLM model available for generation'' \<and> stdout w = out5 fs ff vs f sr)
   \<or> (\<exists>vs f sr ms e. trace w = [(req1, VectorStores_New_resp (Inr vs)), (req2, Files_New_resp (Inr f)),
            (req3 vs f, VectorStores_Files_New_resp (Inr ())),
            (req4 vs, VectorStores_Search_resp (Inr sr)),
            (Models_List_req, Models_List_resp (Inr ms)),
            (req6 fs sr ms, Chat_Completions_New_resp (Inl e))]
        \<and> select_llm ms \<noteq> []
        \<and> err = Some (''error generating answer: '' @ e) \<and> stdout w = out5 fs ff vs f sr)
   \<or> (\<exists>vs f sr ms cr. trace w = [(req1, VectorStores_New_resp (Inr vs)), (req2, Files_New_resp (Inr f)),
            (req3 vs f, VectorStores_Files_New_resp (Inr ())),
            (req4 vs, VectorStores_Search_resp (Inr sr)),
            (Models_List_req, Models_List_resp (Inr ms)),
            (req6 fs sr ms, Chat_Completions_New_resp (Inr cr))]
        \<and> select_llm ms \<noteq> []
        \<and> err = None \<and> stdout w = out5 fs ff vs f sr @ answer_items cr)"
proof -
  obtain r1 s1 where c1: "VectorStores_New c \<lparr>Name = ''my-rag-store''\<rparr> s = (r1, s1)"
    by (cases "VectorStores_New c \<lparr>Name = ''my-rag-store''\<rparr> s") blast
  show ?thesis
  proof (cases r1)
    case (Inl e)
    with run c1 show ?thesis by (auto simp: run_unfold)
  next
    case r1: (Inr vs)
    obtain r2 s2 where c2: "Files_New c
        \<lparr>File = \<lparr>reader = sampleContent, filename = ''ai_concepts.txt'',
               contentType = ''text/plain''\<rparr>,
         Purpose = FileNewParamsPurposeAssistants\<rparr> s1 = (r2, s2)"
      by (meson surj_pair)
    show ?thesis
    proof (cases r2)
      case (Inl e)
      with run c1 r1 c2 show ?thesis by (auto simp: run_unfold)
    next
      case r2: (Inr f)
      obtain r3 s3 where c3: "VectorStores_Files_New c (VectorStore_ID vs)
          \<lparr>FileID = File_ID f\<rparr> s2 = (r3, s3)"
        by (meson surj_pair)
      show ?thesis
      proof (cases r3)
        case (Inl e)
        with run c1 r1 c2 r2 c3 show ?thesis by (auto simp: run_unfold)
      next
        case r3: (Inr u)
        obtain r4 s4 where c4: "VectorStores_Search c (VectorStore_ID vs)
            \<lparr>Query_OfString = query, MaxNumResults = Some 3\<rparr> s3 = (r4, s4)"
          by (meson surj_pair)
        show ?thesis
        proof (cases r4)
          case (Inl e)
          with run c1 r1 c2 r2 c3 r3 c4 show ?thesis by (auto simp: run_unfold)
        next
          case r4: (Inr sr)
          obtain r5 s5 where c5: "Models_List c s4 = (r5, s5)"
            by (meson surj_pair)
          show ?thesis
          proof (cases r5)
            case (Inl e)
            with run c1 r1 c2 r2 c3 r3 c4 r4 c5 show ?thesis by (auto simp: run_unfold)
          next
            case r5: (Inr ms)
            show ?thesis
            proof (cases "select_llm ms = []")
              case True
              with run c1 r1 c2 r2 c3 r3 c4 r4 c5 r5 show ?thesis by (auto simp: run_unfold)
            next
              case llm: False
              obtain r6 s6 where c6: "Chat_Completions_New c
                  \<lparr>Messages = [OfSystem systemPrompt, OfUser (build_context fs (Data sr))],
                   Model = select_llm ms, MaxTokens = Some 300\<rparr> s5 = (r6, s6)"
                by (meson surj_pair)
              show ?thesis
              proof (cases r6)
                case (Inl e)
                with run c1 r1 c2 r2 c3 r3 c4 r4 c5 r5 llm c6 show ?thesis
                  by (auto simp: run_unfold)
              next
                case (Inr cr)
                with run c1 r1 c2 r2 c3 r3 c4 r4 c5 r5 llm c6 show ?thesis
                  by (auto simp: run_unfold)
              qed
            qed
          qed
        qed
      qed
    qed
  qed
qed


lemmas req_defs = req1_def req2_def req3_def req4_def req6_def

text \<open>The same as a case rule.\<close>

lemma runRAGDemo_cases [consumes 1, case_names fail1 fail2 fail3 fail4 fail5 no_llm fail6 success]:
  assumes "runRAGDemo fs ff c (init_world s) = (err, w)"
  obtains
    (fail1) e where
      "trace w = [(req1, VectorStores_New_resp (Inl e))]"
      "err = Some (''error creating vector store: '' @ e)" "stdout w = out1"
  | (fail2) vs e where
      "trace w = [(req1, VectorStores_New_resp (Inr vs)), (req2, Files_New_resp (Inl e))]"
      "err = Some (''error uploading file: '' @ e)" "stdout w = out2 vs"
  | (fail3) vs f e where
      "trace w = [(req1, VectorStores_New_resp (Inr vs)), (req2, Files_New_resp (Inr f)),
          (req3 vs f, VectorStores_Files_New_resp (Inl e))]"
      "err = Some (''error attaching file to vector store: '' @ e)" "stdout w = out3 vs f"
  | (fail4) vs f e where
      "trace w = [(req1, VectorStores_New_resp (Inr vs)), (req2, Files_New_resp (Inr f)),
          (req3 vs f, VectorStores_Files_New_resp (Inr ())),
          (req4 vs, VectorStores_Search_resp (Inl e))]"
      "err = Some (''error searching vector store: '' @ e)" "stdout w = out4 vs f"
  | (fail5) vs f sr e where
      "trace w = [(req1, VectorStores_New_resp (Inr vs)), (req2, Files_New_resp (Inr f)),
          (req3 vs f, VectorStores_Files_New_resp (Inr ())),
          (req4 vs, VectorStores_Search_resp (Inr sr)),
          (Models_List_req, Models_List_resp (Inl e))]"
      "err = Some (''error fetching models: '' @ e)" "stdout w = out5 fs ff vs f sr"
  | (no_llm) vs f sr ms where
      "trace w = [(req1, VectorStores_New_resp (Inr vs)), (req2, Files_New_resp (Inr f)),
          (req3 vs f, VectorStores_Files_New_resp (Inr ())),
          (req4 vs, VectorStores_Search_resp (Inr sr)),
          (Models_List_req, Models_List_resp (Inr ms))]"
      "select_llm ms = []"
      "err = Some ''no LLM model available for generation''" "stdout w = out5 fs ff vs f sr"
  | (fail6) vs f sr ms e where
      "trace w = [(req1, VectorStores_New_resp (Inr vs)), (req2, Files_New_resp (Inr f)),
          (req3 vs f, VectorStores_Files_New_resp (Inr ())),
          (req4 vs, VectorStores_Search_resp (Inr sr)),
          (Models_List_req, Models_List_resp (Inr ms)),
          (req6 fs sr ms, Chat_Completions_New_resp (Inl e))]"
      "select_llm ms \<noteq> []"
      "err = Some (''error generating answer: '' @ e)" "stdout w = out5 fs ff vs f sr"
  | (success) vs f sr ms cr where
      "trace w = [(req1, VectorStores_New_resp (Inr vs)), (req2, Files_New_resp (Inr f)),
          (req3 vs f, VectorStores_Files_New_resp (Inr ())),
          (req4 vs, VectorStores_Search_resp (Inr sr)),
          (Models_List_req, Models_List_resp (Inr ms)),
          (req6 fs sr ms, Chat_Completions_New_resp (Inr cr))]"
      "select_llm ms \<noteq> []"
      "err = None" "stdout w = out5 fs ff vs f sr @ answer_items cr"
  using runRAGDemo_outcome [OF assms] by (elim disjE exE conjE) blast+

section \<open>Facts about the loops\<close>

lemma select_llm_none: "\<forall>m\<in>set ms. ModelType m \<noteq> ''llm'' \<Longrightarrow> select_llm ms = []"
  by (induction ms) simp_all

lemma write_chunks_lines:
  "write_chunks fs i rs b =
     b @ concat (map (\<lambda>k. Sprintf_d (i + k + 1) @ ''. '' @ fs (Content (rs ! k)) @ ''\<newline>'')
                  [0..<length rs])"
proof (induction rs arbitrary: i b)
  case Nil
  then show ?case by simp
next
  case (Cons r rs)
  have "[0..<length (r # rs)] = 0 # map Suc [0..<length rs]"
    by (simp add: upt_conv_Cons map_Suc_upt del: upt_Suc)
  then show ?case
    by (simp add: Cons.IH comp_def del: upt_Suc)
qed




section \<open>The sample runs, evaluated\<close>

lemma always_ok_run:
  "runRAGDemo fs ff (always_ok vs f sr ms cr) (init_world ()) =
     (if select_llm ms = []
      then (Some ''no LLM model available for generation'',
            \<lparr>svc = (), stdout = out5 fs ff vs f sr,
             trace = [(req1, VectorStores_New_resp (Inr vs)), (req2, Files_New_resp (Inr f)),
               (req3 vs f, VectorStores_Files_New_resp (Inr ())),
               (req4 vs, VectorStores_Search_resp (Inr sr)),
               (Models_List_req, Models_List_resp (Inr ms))]\<rparr>)
      else (None,
            \<lparr>svc = (), stdout = out5 fs ff vs f sr @ answer_items cr,
             trace = [(req1, VectorStores_New_resp (Inr vs)), (req2, Files_New_resp (Inr f)),
               (req3 vs f, VectorStores_Files_New_resp (Inr ())),
               (req4 vs, VectorStores_Search_resp (Inr sr)),
               (Models_List_req, Models_List_resp (Inr ms)),
               (req6 fs sr ms, Chat_Completions_New_resp (Inr cr))]\<rparr>))"
  by (simp add: run_unfold always_ok_def)

lemma run_with_llm_eval:
  "run_with_llm =
     (None,
      \<lparr>svc = (), stdout = out5 id Sprintf_d store0 file0 hits0 @ answer_items answer0,
       trace = [(req1, VectorStores_New_resp (Inr store0)), (req2, Files_New_resp (Inr file0)),
         (req3 store0 file0, VectorStores_Files_New_resp (Inr ())),
         (req4 store0, VectorStores_Search_resp (Inr hits0)),
         (Models_List_req, Models_List_resp (Inr [embedding0, llm0])),
         (req6 id hits0 [embedding0, llm0], Chat_Completions_New_resp (Inr answer0))]\<rparr>)"
  by (simp add: run_with_llm_def always_ok_run embedding0_def llm0_def)




lemma run_without_llm_eval:
  "run_without_llm =
     (Some ''no LLM model available for generation'',
      \<lparr>svc = (), stdout = out5 id Sprintf_d store0 file0 hits0,
       trace = [(req1, VectorStores_New_resp (Inr store0)), (req2, Files_New_resp (Inr file0)),
         (req3 store0 file0, VectorStores_Files_New_resp (Inr ())),
         (req4 store0, VectorStores_Search_resp (Inr hits0)),
         (Models_List_req, Models_List_resp (Inr [embedding0]))]\<rparr>)"
  by (simp add: run_without_llm_def always_ok_run embedding0_def)

lemma run_unnamed_llm_eval:
  "run_unnamed_llm =
     (Some ''no LLM model available for generation'',
      \<lparr>svc = (), stdout = out5 id Sprintf_d store0 file0 hits0,
       trace = [(req1, VectorStores_New_resp (Inr store0)), (req2, Files_New_resp (Inr file0)),
         (req3 store0 file0, VectorStores_Files_New_resp (Inr ())),
         (req4 store0, VectorStores_Search_resp (Inr hits0)),
         (Models_List_req, Models_List_resp (Inr [embedding0, unnamed_llm0, llm0]))]\<rparr>)"
  by (simp add: run_unnamed_llm_def always_ok_run embedding0_def unnamed_llm0_def llm0_def)

lemma run_attach_fails_eval:
  "run_attach_fails =
     (Some ''error attaching file to vector store: connection refused'',
      \<lparr>svc = [], stdout = out3 store0 file0,
       trace = [(req1, VectorStores_New_resp (Inr store0)), (req2, Files_New_resp (Inr file0)),
         (req3 store0 file0, VectorStores_Files_New_resp (Inl ''connection refused''))]\<rparr>)"
  by (simp add: run_attach_fails_def script_attach_fails_def run_unfold scripted_def)

lemma run_replayed_eval:
  "run_replayed =
     (None,
      \<lparr>svc = [], stdout = out5 id Sprintf_d store0 file0 hits0 @ answer_items answer0,
       trace = [(req1, VectorStores_New_resp (Inr store0)), (req2, Files_New_resp (Inr file0)),
         (req3 store0 file0, VectorStores_Files_New_resp (Inr ())),
         (req4 store0, VectorStores_Search_resp (Inr hits0)),
         (Models_List_req, Models_List_resp (Inr [embedding0, llm0])),
         (req6 id hits0 [embedding0, llm0], Chat_Completions_New_resp (Inr answer0))]\<rparr>)"
  by (simp add: run_replayed_def script_with_llm_def run_unfold scripted_def
      embedding0_def llm0_def)

section \<open>Properties of the pipeline\<close>

text \<open>
  All properties are about a run of \<^const>\<open>runRAGDemo\<close> from \<^const>\<open>init_world\<close>, against
  any client and any state of the service, with result \<open>(err, w)\<close>: \<open>trace w\<close> is the
  sequence of calls the service received, with the response to each.
\<close>

subsection \<open>Order of the calls and threading of the results\<close>

text \<open>
  C1, as amended. In a run in which every call made succeeds and the returned model list
  has an entry of type \<^verbatim>\<open>"llm"\<close> whose first such entry has a non-empty identifier, the
  pipeline makes exactly six calls, in the order store-create, file-upload, attach,
  search, list-models, chat-completion. The attach call carries the id of the store
  returned by the first call and the id of the file returned by the second, the search
  call carries the id of that store, the chat completion carries the prompt built from the
  search results and the identifier of that model, and the run returns no error.
\<close>

theorem successful_run_calls:
  assumes run: "runRAGDemo fmt_s fmt_4f client (init_world s) = (err, w)"
    and ok: "\<forall>(q, r)\<in>set (trace w). succeeded r"
    and usable: "\<forall>models. Models_List_resp (Inr models) \<in> snd ` set (trace w)
        \<longrightarrow> (\<exists>m. find is_llm models = Some m \<and> Identifier m \<noteq> [])"
  shows "\<exists>vectorStore file searchResults models m response.
      find is_llm models = Some m
    \<and> trace w =
       [(VectorStores_New_req \<lparr>Name = ''my-rag-store''\<rparr>,
           VectorStores_New_resp (Inr vectorStore)),
        (Files_New_req
           \<lparr>File = \<lparr>reader = sampleContent, filename = ''ai_concepts.txt'',
                     contentType = ''text/plain''\<rparr>,
            Purpose = FileNewParamsPurposeAssistants\<rparr>,
           Files_New_resp (Inr file)),
        (VectorStores_Files_New_req (VectorStore_ID vectorStore) \<lparr>FileID = File_ID file\<rparr>,
           VectorStores_Files_New_resp (Inr ())),
        (VectorStores_Search_req (VectorStore_ID vectorStore)
           \<lparr>Query_OfString = query, MaxNumResults = Some 3\<rparr>,
           VectorStores_Search_resp (Inr searchResults)),
        (Models_List_req, Models_List_resp (Inr models)),
        (Chat_Completions_New_req
           \<lparr>Messages = [OfSystem systemPrompt,
                         OfUser (build_context fmt_s (Data searchResults))],
            Model = Identifier m, MaxTokens = Some 300\<rparr>,
           Chat_Completions_New_resp (Inr response))]
    \<and> err = None"
  using run
proof (cases rule: runRAGDemo_cases)
  case (no_llm vs f sr ms)
  with usable obtain m where "find is_llm ms = Some m" "Identifier m \<noteq> []"
    by force
  with no_llm show ?thesis by (simp add: select_llm_find)
next
  case (success vs f sr ms cr)
  with usable obtain m where m: "find is_llm ms = Some m" "Identifier m \<noteq> []"
    by force
  then have "select_llm ms = Identifier m" by (simp add: select_llm_find)
  with success m show ?thesis by (simp add: req_defs)
qed (use ok in \<open>auto simp: succeeded_def\<close>)

text \<open>
  The run against the service that always succeeds and lists an embedding model and then
  an LLM: all six calls, the attach and search calls with the ids the service returned.
\<close>

theorem successful_run_calls_witness:
  "list_all (succeeded \<circ> snd) (trace (snd run_with_llm))
   \<and> find is_llm [embedding0, llm0] = Some llm0 \<and> Identifier llm0 \<noteq> []
   \<and> map fst (trace (snd run_with_llm)) =
       [VectorStores_New_req \<lparr>Name = ''my-rag-store''\<rparr>,
        Files_New_req
           \<lparr>File = \<lparr>reader = sampleContent, filename = ''ai_concepts.txt'',
                     contentType = ''text/plain''\<rparr>,
            Purpose = FileNewParamsPurposeAssistants\<rparr>,
        VectorStores_Files_New_req ''vs_1'' \<lparr>FileID = ''file_7''\<rparr>,
        VectorStores_Search_req ''vs_1'' \<lparr>Query_OfString = query, MaxNumResults = Some 3\<rparr>,
        Models_List_req,
        Chat_Completions_New_req
           \<lparr>Messages = [OfSystem systemPrompt, OfUser (build_context id (Data hits0))],
            Model = ''llama3.2:3b'', MaxTokens = Some 300\<rparr>]
   \<and> fst run_with_llm = None"
proof -
  have run: "runRAGDemo id Sprintf_d (always_ok store0 file0 hits0 [embedding0, llm0] answer0)
      (init_world ()) = (fst run_with_llm, snd run_with_llm)"
    by (simp add: run_with_llm_def)
  have ok: "\<forall>(q, r)\<in>set (trace (snd run_with_llm)). succeeded r"
    by (simp add: run_with_llm_eval succeeded_def)
  have usable: "\<forall>models. Models_List_resp (Inr models) \<in> snd ` set (trace (snd run_with_llm))
        \<longrightarrow> (\<exists>m. find is_llm models = Some m \<and> Identifier m \<noteq> [])"
    by (auto simp: run_with_llm_eval is_llm_def embedding0_def llm0_def)
  from successful_run_calls [OF run ok usable] ok show ?thesis
    by (auto simp: run_with_llm_eval req_defs store0_def file0_def is_llm_def
        embedding0_def llm0_def succeeded_def)
qed

text \<open>
  Without the condition on the model list the statement fails: against the service that
  always succeeds and lists only an embedding model, every call made succeeds, and the
  calls are those of steps 1 to 5 only; the chat completion is never requested and the
  run returns the error of line 138.
\<close>

theorem successful_calls_without_chat_completion:
  "list_all (succeeded \<circ> snd) (trace (snd run_without_llm))
   \<and> map call_number (map fst (trace (snd run_without_llm))) = [1, 2, 3, 4, 5]
   \<and> fst run_without_llm = Some ''no LLM model available for generation''"
  by (simp add: run_without_llm_eval succeeded_def req_defs)

subsection \<open>Failures\<close>

text \<open>
  C2. If a call the pipeline makes fails with error \<open>e\<close>, that call is the last one (the
  calls made are those of steps 1 to \<open>k\<close>, in order, where \<open>k\<close> is the step of the failed
  call), and the pipeline returns the error made of the fixed prefix of that step, a
  colon and \<open>e\<close>.
\<close>

theorem failed_call_aborts:
  assumes run: "runRAGDemo fmt_s fmt_4f client (init_world s) = (err, w)"
    and made: "(q, r) \<in> set (trace w)"
    and failed: "failure r = Some e"
  shows "last (trace w) = (q, r)
    \<and> map call_number (map fst (trace w)) = [1..<Suc (call_number q)]
    \<and> (case q of
          VectorStores_New_req _ \<Rightarrow> err = Some (''error creating vector store: '' @ e)
        | Files_New_req _ \<Rightarrow> err = Some (''error uploading file: '' @ e)
        | VectorStores_Files_New_req _ _ \<Rightarrow>
            err = Some (''error attaching file to vector store: '' @ e)
        | VectorStores_Search_req _ _ \<Rightarrow> err = Some (''error searching vector store: '' @ e)
        | Models_List_req \<Rightarrow> err = Some (''error fetching models: '' @ e)
        | Chat_Completions_New_req _ \<Rightarrow> err = Some (''error generating answer: '' @ e))"
  using run
  by (cases rule: runRAGDemo_cases)
    (use made failed in \<open>auto simp: req_defs upt_rec\<close>)

text \<open>A service whose third response, to the attach call, is an error.\<close>

theorem failed_call_aborts_witness:
  "(VectorStores_Files_New_req ''vs_1'' \<lparr>FileID = ''file_7''\<rparr>,
      VectorStores_Files_New_resp (Inl ''connection refused''))
     \<in> set (trace (snd run_attach_fails))
   \<and> failure (VectorStores_Files_New_resp (Inl ''connection refused'') :: (string, nat) response)
       = Some ''connection refused''
   \<and> map call_number (map fst (trace (snd run_attach_fails))) = [1, 2, 3]
   \<and> fst run_attach_fails
       = Some ''error attaching file to vector store: connection refused''"
proof -
  have run: "runRAGDemo id Sprintf_d scripted (init_world script_attach_fails)
      = (fst run_attach_fails, snd run_attach_fails)"
    by (simp add: run_attach_fails_def)
  have made: "(VectorStores_Files_New_req ''vs_1'' \<lparr>FileID = ''file_7''\<rparr>,
      VectorStores_Files_New_resp (Inl ''connection refused''))
     \<in> set (trace (snd run_attach_fails))"
    by (simp add: run_attach_fails_eval req_defs store0_def file0_def)
  have failed: "failure (VectorStores_Files_New_resp (Inl ''connection refused'')
      :: (string, nat) response) = Some ''connection refused''"
    by simp
  from failed_call_aborts [OF run made failed] made show ?thesis
    by (simp add: upt_rec)
qed

text \<open>
  C5. If the returned model list has no entry of type \<^verbatim>\<open>"llm"\<close>, the pipeline returns the
  error \<^verbatim>\<open>no LLM model available for generation\<close>, and its calls are those of steps 1 to
  5: it does not request a chat completion.
\<close>

theorem no_llm_model_aborts:
  assumes run: "runRAGDemo fmt_s fmt_4f client (init_world s) = (err, w)"
    and listed: "Models_List_resp (Inr models) \<in> snd ` set (trace w)"
    and no_llm: "\<forall>m\<in>set models. ModelType m \<noteq> ''llm''"
  shows "err = Some ''no LLM model available for generation''
    \<and> map call_number (map fst (trace w)) = [1, 2, 3, 4, 5]
    \<and> (\<forall>p. Chat_Completions_New_req p \<notin> fst ` set (trace w))"
  using run
  by (cases rule: runRAGDemo_cases)
    (use listed select_llm_none [OF no_llm] in \<open>auto simp: req_defs\<close>)

text \<open>A model list holding an embedding model only.\<close>

theorem no_llm_model_aborts_witness:
  "Models_List_resp (Inr [embedding0]) \<in> snd ` set (trace (snd run_without_llm))
   \<and> ModelType embedding0 \<noteq> ''llm''
   \<and> fst run_without_llm = Some ''no LLM model available for generation''
   \<and> map call_number (map fst (trace (snd run_without_llm))) = [1, 2, 3, 4, 5]
   \<and> (\<forall>p. Chat_Completions_New_req p \<notin> fst ` set (trace (snd run_without_llm)))"
proof -
  have run: "runRAGDemo id Sprintf_d (always_ok store0 file0 hits0 [embedding0] answer0)
      (init_world ()) = (fst run_without_llm, snd run_without_llm)"
    by (simp add: run_without_llm_def)
  have listed: "Models_List_resp (Inr [embedding0])
      \<in> snd ` set (trace (snd run_without_llm) :: (request \<times> (string, nat) response) list)"
    by (simp add: run_without_llm_eval)
  have no_llm: "\<forall>m\<in>set [embedding0]. ModelType m \<noteq> ''llm''"
    by (simp add: embedding0_def)
  from no_llm_model_aborts [OF run listed no_llm] listed no_llm show ?thesis
    by simp
qed

text \<open>
  C9. If the first entry of type \<^verbatim>\<open>"llm"\<close> in the returned model list has the empty
  string as its identifier, the selection yields the empty string, the pipeline returns
  the error \<^verbatim>\<open>no LLM model available for generation\<close> and it does not request a chat
  completion, whatever follows that entry in the list.
\<close>

theorem empty_identifier_counts_as_no_llm:
  assumes run: "runRAGDemo fmt_s fmt_4f client (init_world s) = (err, w)"
    and listed: "Models_List_resp (Inr models) \<in> snd ` set (trace w)"
    and first_llm: "find is_llm models = Some m"
    and unnamed: "Identifier m = []"
  shows "select_llm models = []
    \<and> err = Some ''no LLM model available for generation''
    \<and> map call_number (map fst (trace w)) = [1, 2, 3, 4, 5]
    \<and> (\<forall>p. Chat_Completions_New_req p \<notin> fst ` set (trace w))"
proof -
  from first_llm unnamed have sel: "select_llm models = []"
    by (simp add: select_llm_find)
  from run show ?thesis
    by (cases rule: runRAGDemo_cases) (use listed sel in \<open>auto simp: req_defs\<close>)
qed

text \<open>
  A model list with an embedding model, an LLM without identifier and an LLM with one.
\<close>

theorem empty_identifier_counts_as_no_llm_witness:
  "Models_List_resp (Inr [embedding0, unnamed_llm0, llm0])
     \<in> snd ` set (trace (snd run_unnamed_llm))
   \<and> find is_llm [embedding0, unnamed_llm0, llm0] = Some unnamed_llm0
   \<and> Identifier unnamed_llm0 = []
   \<and> is_llm llm0 \<and> Identifier llm0 \<noteq> []
   \<and> select_llm [embedding0, unnamed_llm0, llm0] = []
   \<and> fst run_unnamed_llm = Some ''no LLM model available for generation''
   \<and> map call_number (map fst (trace (snd run_unnamed_llm))) = [1, 2, 3, 4, 5]"
proof -
  have run: "runRAGDemo id Sprintf_d
      (always_ok store0 file0 hits0 [embedding0, unnamed_llm0, llm0] answer0)
      (init_world ()) = (fst run_unnamed_llm, snd run_unnamed_llm)"
    by (simp add: run_unnamed_llm_def)
  have listed: "Models_List_resp (Inr [embedding0, unnamed_llm0, llm0])
      \<in> snd ` set (trace (snd run_unnamed_llm) :: (request \<times> (string, nat) response) list)"
    by (simp add: run_unnamed_llm_eval)
  have first_llm: "find is_llm [embedding0, unnamed_llm0, llm0] = Some unnamed_llm0"
    by (simp add: is_llm_def embedding0_def unnamed_llm0_def)
  have unnamed: "Identifier unnamed_llm0 = []"
    by (simp add: unnamed_llm0_def)
  have other: "is_llm llm0 \<and> Identifier llm0 \<noteq> []"
    by (simp add: is_llm_def llm0_def)
  from empty_identifier_counts_as_no_llm [OF run listed first_llm unnamed]
    listed first_llm unnamed other
  show ?thesis by simp
qed

subsection \<open>The prompt and the model\<close>

text \<open>
  C3. When the search returned \<open>N\<close> results and a chat completion is requested, its
  messages are the system instruction and one user message. The user message is the
  header \<^verbatim>\<open>Based on the following information:\<close> and an empty line, then \<open>N\<close> lines, the
  \<open>i\<close>-th being the number \<open>i\<close> (counted from 1, in decimal), a dot, a space and the
  content of the \<open>i\<close>-th result in the order returned, and then, after an empty line,
  \<^verbatim>\<open>Please answer the question: \<close> followed by the query text. \<open>N\<close> may be 0.
\<close>

theorem prompt_lists_results_in_order:
  assumes run: "runRAGDemo fmt_s fmt_4f client (init_world s) = (err, w)"
    and found: "VectorStores_Search_resp (Inr searchResults) \<in> snd ` set (trace w)"
    and asked: "Chat_Completions_New_req p \<in> fst ` set (trace w)"
  shows "Messages p =
    [OfSystem systemPrompt,
     OfUser (''Based on the following information:\<newline>\<newline>''
       @ concat (map (\<lambda>i. Sprintf_d (i + 1) @ ''. ''
                      @ fmt_s (Content (Data searchResults ! i)) @ ''\<newline>'')
                  [0..<length (Data searchResults)])
       @ ''\<newline>Please answer the question: '' @ query)]"
  using run
  by (cases rule: runRAGDemo_cases)
    (use found asked in \<open>auto simp: req_defs build_context_def write_chunks_lines\<close>)

text \<open>Two search results give two numbered lines.\<close>

theorem prompt_lists_results_in_order_witness:
  "VectorStores_Search_resp (Inr hits0) \<in> snd ` set (trace (snd run_with_llm))
   \<and> Chat_Completions_New_req
        \<lparr>Messages = [OfSystem systemPrompt, OfUser (build_context id (Data hits0))],
         Model = ''llama3.2:3b'', MaxTokens = Some 300\<rparr>
       \<in> fst ` set (trace (snd run_with_llm))
   \<and> build_context id (Data hits0) =
       ''Based on the following information:\<newline>\<newline>''
       @ ''1. Machine Learning is a subset of AI\<newline>''
       @ ''2. Deep Learning\<newline>''
       @ ''\<newline>Please answer the question: ''
       @ ''What is machine learning and how does it relate to AI?''"
proof -
  have run: "runRAGDemo id Sprintf_d (always_ok store0 file0 hits0 [embedding0, llm0] answer0)
      (init_world ()) = (fst run_with_llm, snd run_with_llm)"
    by (simp add: run_with_llm_def)
  have found: "VectorStores_Search_resp (Inr hits0) \<in> snd ` set (trace (snd run_with_llm))"
    by (simp add: run_with_llm_eval)
  have asked: "Chat_Completions_New_req
        \<lparr>Messages = [OfSystem systemPrompt, OfUser (build_context id (Data hits0))],
         Model = ''llama3.2:3b'', MaxTokens = Some 300\<rparr>
       \<in> fst ` set (trace (snd run_with_llm))"
    by (simp add: run_with_llm_eval req_defs embedding0_def llm0_def)
  from prompt_lists_results_in_order [OF run found asked] found asked show ?thesis
    by (simp add: hits0_def query_def Sprintf_d.simps)
qed

text \<open>
  C4. When the returned model list has an entry of type \<^verbatim>\<open>"llm"\<close>, the selection yields
  the identifier of the first such entry in list order, every chat completion requested
  names that identifier as its model, and one is requested if that identifier is not
  empty. The witness below is the list of a non-LLM entry followed by an LLM entry: the
  identifier of the second is used.
\<close>

theorem first_llm_model_is_used:
  assumes run: "runRAGDemo fmt_s fmt_4f client (init_world s) = (err, w)"
    and listed: "Models_List_resp (Inr models) \<in> snd ` set (trace w)"
    and first_llm: "find is_llm models = Some m"
  shows "select_llm models = Identifier m
    \<and> (\<forall>p. Chat_Completions_New_req p \<in> fst ` set (trace w) \<longrightarrow> Model p = Identifier m)
    \<and> (Identifier m \<noteq> [] \<longrightarrow> (\<exists>p. Chat_Completions_New_req p \<in> fst ` set (trace w)))"
proof -
  from first_llm have sel: "select_llm models = Identifier m"
    by (simp add: select_llm_find)
  from run show ?thesis
    by (cases rule: runRAGDemo_cases) (use listed sel in \<open>auto simp: req_defs\<close>)
qed

theorem first_llm_model_is_used_witness:
  "Models_List_resp (Inr [embedding0, llm0]) \<in> snd ` set (trace (snd run_with_llm))
   \<and> \<not> is_llm embedding0 \<and> is_llm llm0
   \<and> find is_llm [embedding0, llm0] = Some llm0
   \<and> select_llm [embedding0, llm0] = ''llama3.2:3b''
   \<and> map (\<lambda>q. case q of Chat_Completions_New_req p \<Rightarrow> Model p | _ \<Rightarrow> [])
        (filter (\<lambda>q. call_number q = 6) (map fst (trace (snd run_with_llm))))
      = [''llama3.2:3b'']"
proof -
  have run: "runRAGDemo id Sprintf_d (always_ok store0 file0 hits0 [embedding0, llm0] answer0)
      (init_world ()) = (fst run_with_llm, snd run_with_llm)"
    by (simp add: run_with_llm_def)
  have listed: "Models_List_resp (Inr [embedding0, llm0])
      \<in> snd ` set (trace (snd run_with_llm))"
    by (simp add: run_with_llm_eval)
  have types: "\<not> is_llm embedding0 \<and> is_llm llm0"
    by (simp add: is_llm_def embedding0_def llm0_def)
  then have first_llm: "find is_llm [embedding0, llm0] = Some llm0"
    by simp
  have name: "Identifier llm0 = ''llama3.2:3b''"
    by (simp add: llm0_def)
  from first_llm_model_is_used [OF run listed first_llm] listed types first_llm name
  show ?thesis
    by (simp add: run_with_llm_eval req_defs)
qed

subsection \<open>The answer\<close>




subsection \<open>No call between attach and search\<close>

text \<open>
  C7. The log holds every call the pipeline makes to the service. If the call at a
  position of the log is an attach call that succeeded, the call at the next position
  exists and is the search call, on the same store: the pipeline makes no call, and so no
  status poll, between the two.
\<close>

theorem search_follows_attach_directly:
  assumes run: "runRAGDemo fmt_s fmt_4f client (init_world s) = (err, w)"
    and k: "k < length (trace w)"
    and attach: "trace w ! k = (VectorStores_Files_New_req store p, VectorStores_Files_New_resp (Inr u))"
  shows "Suc k < length (trace w)
    \<and> (\<exists>p'. fst (trace w ! Suc k) = VectorStores_Search_req store p')"
  using run
  by (cases rule: runRAGDemo_cases)
    (use k attach in \<open>auto simp: req_defs nth_Cons' split: if_splits\<close>)

theorem search_follows_attach_directly_witness:
  "2 < length (trace (snd run_with_llm))
   \<and> trace (snd run_with_llm) ! 2
       = (VectorStores_Files_New_req ''vs_1'' \<lparr>FileID = ''file_7''\<rparr>,
          VectorStores_Files_New_resp (Inr ()))
   \<and> 3 < length (trace (snd run_with_llm))
   \<and> (\<exists>p'. fst (trace (snd run_with_llm) ! 3) = VectorStores_Search_req ''vs_1'' p')"
proof -
  have run: "runRAGDemo id Sprintf_d (always_ok store0 file0 hits0 [embedding0, llm0] answer0)
      (init_world ()) = (fst run_with_llm, snd run_with_llm)"
    by (simp add: run_with_llm_def)
  have k: "2 < length (trace (snd run_with_llm))"
    by (simp add: run_with_llm_eval)
  have attach: "trace (snd run_with_llm) ! 2
       = (VectorStores_Files_New_req ''vs_1'' \<lparr>FileID = ''file_7''\<rparr>,
          VectorStores_Files_New_resp (Inr ()))"
    by (simp add: run_with_llm_eval req_defs store0_def file0_def)
  from search_follows_attach_directly [OF run k attach] k attach show ?thesis
    by (simp add: eval_nat_numeral)
qed

subsection \<open>Fixed limits\<close>

text \<open>
  C8. Every search request that the pipeline issues asks for at most 3 results, and every
  chat completion request that it issues has a max-tokens value of 300.
\<close>

theorem fixed_result_and_token_limits:
  assumes run: "runRAGDemo fmt_s fmt_4f client (init_world s) = (err, w)"
    and issued: "q \<in> fst ` set (trace w)"
  shows "(\<forall>store p. q = VectorStores_Search_req store p \<longrightarrow> MaxNumResults p = Some 3)
    \<and> (\<forall>p. q = Chat_Completions_New_req p \<longrightarrow> MaxTokens p = Some 300)"
  using run
  by (cases rule: runRAGDemo_cases) (use issued in \<open>auto simp: req_defs\<close>)

theorem fixed_result_and_token_limits_witness:
  "fst (trace (snd run_with_llm) ! 3) \<in> fst ` set (trace (snd run_with_llm))
   \<and> fst (trace (snd run_with_llm) ! 5) \<in> fst ` set (trace (snd run_with_llm))
   \<and> (\<exists>p. fst (trace (snd run_with_llm) ! 3) = VectorStores_Search_req ''vs_1'' p
        \<and> MaxNumResults p = Some 3)
   \<and> (\<exists>p. fst (trace (snd run_with_llm) ! 5) = Chat_Completions_New_req p
        \<and> MaxTokens p = Some 300)"
proof -
  have run: "runRAGDemo id Sprintf_d (always_ok store0 file0 hits0 [embedding0, llm0] answer0)
      (init_world ()) = (fst run_with_llm, snd run_with_llm)"
    by (simp add: run_with_llm_def)
  have issued3: "fst (trace (snd run_with_llm) ! 3) \<in> fst ` set (trace (snd run_with_llm))"
    by (simp add: run_with_llm_eval)
  have issued5: "fst (trace (snd run_with_llm) ! 5) \<in> fst ` set (trace (snd run_with_llm))"
    by (simp add: run_with_llm_eval)
  have search: "\<exists>p. fst (trace (snd run_with_llm) ! 3) = VectorStores_Search_req ''vs_1'' p"
    by (simp add: run_with_llm_eval req_defs store0_def)
  have chat: "\<exists>p. fst (trace (snd run_with_llm) ! 5) = Chat_Completions_New_req p"
    by (simp add: run_with_llm_eval req_defs)
  from fixed_result_and_token_limits [OF run issued3]
    fixed_result_and_token_limits [OF run issued5] issued3 issued5 search chat
  show ?thesis by auto
qed

subsection \<open>Determinism in the responses\<close>

text \<open>
  C10. Take two runs, against any two clients and service states. If the two runs
  received the same sequence of responses, they sent the same sequence of requests, with
  the same payloads, printed the same output and returned the same error.
\<close>

theorem same_responses_same_behaviour:
  assumes run1: "runRAGDemo fmt_s fmt_4f client1 (init_world s1) = (err1, w1)"
    and run2: "runRAGDemo fmt_s fmt_4f client2 (init_world s2) = (err2, w2)"
    and same: "map snd (trace w1) = map snd (trace w2)"
  shows "map fst (trace w1) = map fst (trace w2) \<and> stdout w1 = stdout w2
    \<and> console w1 = console w2 \<and> err1 = err2"
  using run1
proof (cases rule: runRAGDemo_cases)
  case fail1
  with run2 show ?thesis
    by (cases rule: runRAGDemo_cases) (use same fail1 in \<open>auto simp: console_def\<close>)
next
  case fail2
  with run2 show ?thesis
    by (cases rule: runRAGDemo_cases) (use same fail2 in \<open>auto simp: console_def\<close>)
next
  case fail3
  with run2 show ?thesis
    by (cases rule: runRAGDemo_cases) (use same fail3 in \<open>auto simp: console_def\<close>)
next
  case fail4
  with run2 show ?thesis
    by (cases rule: runRAGDemo_cases) (use same fail4 in \<open>auto simp: console_def\<close>)
next
  case fail5
  with run2 show ?thesis
    by (cases rule: runRAGDemo_cases) (use same fail5 in \<open>auto simp: console_def\<close>)
next
  case no_llm
  with run2 show ?thesis
    by (cases rule: runRAGDemo_cases) (use same no_llm in \<open>auto simp: console_def\<close>)
next
  case fail6
  with run2 show ?thesis
    by (cases rule: runRAGDemo_cases) (use same fail6 in \<open>auto simp: console_def\<close>)
next
  case success
  with run2 show ?thesis
    by (cases rule: runRAGDemo_cases) (use same success in \<open>auto simp: console_def\<close>)
qed

text \<open>
  The service that always succeeds and the service that replays a script of the same
  responses are different clients with different states; the two runs agree.
\<close>

theorem same_responses_same_behaviour_witness:
  "map snd (trace (snd run_with_llm)) = map snd (trace (snd run_replayed))
   \<and> map fst (trace (snd run_with_llm)) = map fst (trace (snd run_replayed))
   \<and> stdout (snd run_with_llm) = stdout (snd run_replayed)
   \<and> console (snd run_with_llm) = console (snd run_replayed)
   \<and> fst run_with_llm = fst run_replayed"
proof -
  have run1: "runRAGDemo id Sprintf_d (always_ok store0 file0 hits0 [embedding0, llm0] answer0)
      (init_world ()) = (fst run_with_llm, snd run_with_llm)"
    by (simp add: run_with_llm_def)
  have run2: "runRAGDemo id Sprintf_d scripted (init_world script_with_llm)
      = (fst run_replayed, snd run_replayed)"
    by (simp add: run_replayed_def)
  have same: "map snd (trace (snd run_with_llm)) = map snd (trace (snd run_replayed))"
    by (simp add: run_with_llm_eval run_replayed_eval)
  from same_responses_same_behaviour [OF run1 run2 same] same show ?thesis
    by simp
qed

end
